theory Spec2Isabelle
  imports Main "HOL-Library.Word" "HOL-Library.Sublist"
begin

section \<open>JavaScript strings\<close>

text \<open>
  A JavaScript string is a sequence of UTF-16 code units. Literals of the source are
  written with \<open>utf16\<close>, which sends each character of an Isabelle string (a byte, read
  as a Latin-1 code point) to the code unit of the same number; the accented letters of
  the Spanish messages are given by their code units (\<open>0xED\<close> i-acute, \<open>0xE1\<close> a-acute,
  \<open>0xF3\<close> o-acute).
\<close>

type_synonym jsstring = "16 word list"

definition utf16 :: "string \<Rightarrow> jsstring" where
  "utf16 cs = map (\<lambda>c. of_nat (of_char c)) cs"

text \<open>
  \<open>String.prototype.trim\<close> removes the code units of ECMAScript's WhiteSpace and
  LineTerminator productions from both ends: TAB, LF, VT, FF, CR, SP, NBSP, U+1680,
  U+2000 to U+200A, U+2028, U+2029, U+202F, U+205F, U+3000 and U+FEFF.
\<close>

definition isWhiteSpace :: "16 word \<Rightarrow> bool" where
  "isWhiteSpace c \<longleftrightarrow>
     c \<in> {0x0009, 0x000A, 0x000B, 0x000C, 0x000D, 0x0020, 0x00A0, 0x1680,
          0x2028, 0x2029, 0x202F, 0x205F, 0x3000, 0xFEFF}
     \<or> (0x2000 \<le> c \<and> c \<le> 0x200A)"

definition trim :: "jsstring \<Rightarrow> jsstring" where
  "trim s = rev (dropWhile isWhiteSpace (rev (dropWhile isWhiteSpace s)))"

text \<open>
  \<open>a || b\<close> on an optional string: \<open>undefined\<close> and the empty string are falsy, so
  both give the right operand.
\<close>

definition or_else :: "jsstring option \<Rightarrow> jsstring \<Rightarrow> jsstring" where
  "or_else a b = (case a of None \<Rightarrow> b | Some v \<Rightarrow> if v = [] then b else v)"

section \<open>Models (core/models)\<close>

text \<open>
  The interfaces of the models directory. The numeric fields of the GitHub payloads are
  integers. Field names shared by two interfaces, or with a HOL constant, carry a suffix.
\<close>

record GithubUser =
  login :: jsstring
  id_user :: int
  avatar_url :: jsstring
  html_url_user :: jsstring
  name_user :: "jsstring option"
  company :: "jsstring option"
  blog :: "jsstring option"
  location :: "jsstring option"
  email :: "jsstring option"
  bio :: "jsstring option"
  public_repos :: int
  followers :: int
  following :: int
  created_at :: jsstring

record GithubRepo =
  id_repo :: int
  name_repo :: jsstring
  full_name :: jsstring
  html_url_repo :: jsstring
  description :: "jsstring option"
  stargazers_count :: int
  watchers_count :: int
  forks_count :: int
  language :: "jsstring option"
  updated_at :: jsstring

record GithubError =
  message :: jsstring
  documentation_url :: jsstring

record 'a SearchState =
  data :: "'a option"
  loading :: bool
  error :: "jsstring option"

section \<open>The HTTP client\<close>

text \<open>
  \<open>HttpClient.get\<close> is taken as a capability: subscribing sends the request, and the
  response arrives later, once, as a body or as an \<open>HttpErrorResponse\<close>. Of the latter
  the service reads \<open>status\<close> and \<open>error\<close> (the parsed body, here \<open>error_body\<close>, absent
  when there is none).
\<close>

record HttpErrorResponse =
  status :: int
  error_body :: "GithubError option"

record HttpRequest =
  url :: jsstring
  params :: "(jsstring \<times> jsstring) list"

text \<open>
  A subscription waiting for its response. The callbacks of \<open>searchUser\<close> close over the
  parameter \<open>username\<close> as it was passed (not trimmed); those of \<open>getUserRepos\<close> close over
  nothing they read.
\<close>

datatype subscription = ProfileFetch jsstring | ReposFetch

datatype response =
    ProfileResult "HttpErrorResponse + GithubUser"
  | ReposResult "HttpErrorResponse + GithubRepo list"

section \<open>GithubService\<close>

text \<open>
  The two signals of the service, the requests in flight, and two logs that the source
  does not hold but an observer can see: every request handed to the HTTP client
  (\<open>sent\<close>) and every record passed to a signal's \<open>set\<close> (\<open>writes\<close>), in order.
\<close>

datatype signal_write =
    SearchWrite "GithubUser SearchState"
  | ReposWrite "GithubRepo list SearchState"

record GithubService =
  searchState :: "GithubUser SearchState"
  reposState :: "GithubRepo list SearchState"
  in_flight :: "(HttpRequest \<times> subscription) list"
  sent :: "HttpRequest list"
  writes :: "signal_write list"

definition apiUrl :: jsstring where
  "apiUrl = utf16 ''https://api.github.com''"

definition initial_state :: "'a SearchState" where
  "initial_state = \<lparr>data = None, loading = False, error = None\<rparr>"

definition new_GithubService :: GithubService where
  "new_GithubService =
     \<lparr>searchState = initial_state, reposState = initial_state,
      in_flight = [], sent = [], writes = []\<rparr>"

definition set_searchState :: "GithubUser SearchState \<Rightarrow> GithubService \<Rightarrow> GithubService" where
  "set_searchState v s = s\<lparr>searchState := v, writes := writes s @ [SearchWrite v]\<rparr>"

definition set_reposState :: "GithubRepo list SearchState \<Rightarrow> GithubService \<Rightarrow> GithubService" where
  "set_reposState v s = s\<lparr>reposState := v, writes := writes s @ [ReposWrite v]\<rparr>"

definition http_get :: "HttpRequest \<Rightarrow> subscription \<Rightarrow> GithubService \<Rightarrow> GithubService" where
  "http_get req sub s = s\<lparr>in_flight := in_flight s @ [(req, sub)], sent := sent s @ [req]\<rparr>"

text \<open>The computed signals.\<close>

definition user :: "GithubService \<Rightarrow> GithubUser option" where
  "user s = data (searchState s)"

definition isLoading :: "GithubService \<Rightarrow> bool" where
  "isLoading s = loading (searchState s)"

definition error_msg :: "GithubService \<Rightarrow> jsstring option" where
  "error_msg s = error (searchState s)"

definition repos :: "GithubService \<Rightarrow> GithubRepo list option" where
  "repos s = data (reposState s)"

definition isLoadingRepos :: "GithubService \<Rightarrow> bool" where
  "isLoadingRepos s = loading (reposState s)"

definition reposError :: "GithubService \<Rightarrow> jsstring option" where
  "reposError s = error (reposState s)"

subsection \<open>getUserRepos\<close>

definition getUserRepos_errorMessage :: "HttpErrorResponse \<Rightarrow> jsstring" where
  "getUserRepos_errorMessage e =
     (if status e = 404 then utf16 ''Repositorios no encontrados''
      else if status e = 403 then
        utf16 ''L'' @ [0xED] @ utf16 ''mite de solicitudes excedido al cargar repositorios''
      else if status e = 0 then
        utf16 ''Error de conexi'' @ [0xF3] @ utf16 ''n al cargar repositorios''
      else or_else (map_option message (error_body e)) (utf16 ''Error al cargar repositorios''))"

definition getUserRepos_tap :: "GithubRepo list \<Rightarrow> GithubService \<Rightarrow> GithubService" where
  "getUserRepos_tap rs s = set_reposState \<lparr>data = Some rs, loading = False, error = None\<rparr> s"

definition getUserRepos_catchError :: "HttpErrorResponse \<Rightarrow> GithubService \<Rightarrow> GithubService" where
  "getUserRepos_catchError e s =
     set_reposState \<lparr>data = None, loading = False, error = Some (getUserRepos_errorMessage e)\<rparr> s"

definition getUserRepos :: "jsstring \<Rightarrow> GithubService \<Rightarrow> GithubService" where
  "getUserRepos username s =
     (if username = [] \<or> length (trim username) = 0 then
        set_reposState
          \<lparr>data = None, loading = False,
           error = Some (utf16 ''El nombre de usuario no puede estar vac'' @ [0xED] @ utf16 ''o'')\<rparr> s
      else
        http_get
          \<lparr>url = apiUrl @ utf16 ''/users/'' @ trim username @ utf16 ''/repos'',
           params = [(utf16 ''sort'', utf16 ''updated''),
                     (utf16 ''direction'', utf16 ''desc''),
                     (utf16 ''per_page'', utf16 ''30'')]\<rparr>
          ReposFetch
          (set_reposState \<lparr>data = None, loading = True, error = None\<rparr> s))"

subsection \<open>searchUser\<close>

definition searchUser_errorMessage :: "jsstring \<Rightarrow> HttpErrorResponse \<Rightarrow> jsstring" where
  "searchUser_errorMessage username e =
     (if status e = 404 then utf16 ''Usuario \"'' @ username @ utf16 ''\" no encontrado''
      else if status e = 403 then
        utf16 ''L'' @ [0xED] @ utf16 ''mite de solicitudes excedido. Intenta m'' @ [0xE1] @ utf16 ''s tarde''
      else if status e = 0 then
        utf16 ''Error de conexi'' @ [0xF3] @ utf16 ''n. Verifica tu internet''
      else or_else (map_option message (error_body e)) (utf16 ''Error al buscar usuario''))"

definition searchUser_tap :: "GithubUser \<Rightarrow> GithubService \<Rightarrow> GithubService" where
  "searchUser_tap u s =
     getUserRepos (login u)
       (set_searchState \<lparr>data = Some u, loading = False, error = None\<rparr> s)"

definition searchUser_catchError ::
  "jsstring \<Rightarrow> HttpErrorResponse \<Rightarrow> GithubService \<Rightarrow> GithubService" where
  "searchUser_catchError username e s =
     set_searchState
       \<lparr>data = None, loading = False, error = Some (searchUser_errorMessage username e)\<rparr> s"

definition searchUser :: "jsstring \<Rightarrow> GithubService \<Rightarrow> GithubService" where
  "searchUser username s =
     (if username = [] \<or> length (trim username) = 0 then
        set_searchState
          \<lparr>data = None, loading = False,
           error = Some (utf16 ''El nombre de usuario no puede estar vac'' @ [0xED] @ utf16 ''o'')\<rparr> s
      else
        http_get
          \<lparr>url = apiUrl @ utf16 ''/users/'' @ trim username, params = []\<rparr>
          (ProfileFetch username)
          (set_searchState \<lparr>data = None, loading = True, error = None\<rparr> s))"

subsection \<open>clearSearch\<close>

definition clearSearch :: "GithubService \<Rightarrow> GithubService" where
  "clearSearch s =
     set_reposState \<lparr>data = None, loading = False, error = None\<rparr>
       (set_searchState \<lparr>data = None, loading = False, error = None\<rparr> s)"

subsection \<open>Responses and runs\<close>

text \<open>
  The response to the \<open>i\<close>-th request in flight arrives: the subscription ends and its
  \<open>tap\<close> or \<open>catchError\<close> callback runs. A response for no request in flight, or of
  the other resource's kind, is no event of the service.
\<close>

definition deliver :: "nat \<Rightarrow> response \<Rightarrow> GithubService \<Rightarrow> GithubService" where
  "deliver i r s =
     (if i < length (in_flight s) then
        (let s' = s\<lparr>in_flight := take i (in_flight s) @ drop (Suc i) (in_flight s)\<rparr> in
         case (snd (in_flight s ! i), r) of
           (ProfileFetch username, ProfileResult (Inr u)) \<Rightarrow> searchUser_tap u s'
         | (ProfileFetch username, ProfileResult (Inl e)) \<Rightarrow> searchUser_catchError username e s'
         | (ReposFetch, ReposResult (Inr rs)) \<Rightarrow> getUserRepos_tap rs s'
         | (ReposFetch, ReposResult (Inl e)) \<Rightarrow> getUserRepos_catchError e s'
         | _ \<Rightarrow> s)
      else s)"

datatype event =
    SearchUser jsstring
  | GetUserRepos jsstring
  | ClearSearch
  | Response nat response

fun step :: "GithubService \<Rightarrow> event \<Rightarrow> GithubService" where
  "step s (SearchUser username) = searchUser username s"
| "step s (GetUserRepos username) = getUserRepos username s"
| "step s ClearSearch = clearSearch s"
| "step s (Response i r) = deliver i r s"

definition run :: "event list \<Rightarrow> GithubService" where
  "run evs = foldl step new_GithubService evs"

section \<open>ThemeService\<close>

datatype Theme = Dark | Light

text \<open>The string literals \<open>'dark'\<close> and \<open>'light'\<close> of the type \<open>Theme\<close>.\<close>

definition theme_literal :: "Theme \<Rightarrow> jsstring" where
  "theme_literal t = (case t of Dark \<Rightarrow> utf16 ''dark'' | Light \<Rightarrow> utf16 ''light'')"

subsection \<open>The platform: document body, local storage, colour-scheme query\<close>

text \<open>
  Of \<open>document.body\<close> the service touches the attribute \<open>data-theme\<close> and the class
  list, an ordered set of tokens: \<open>add\<close> appends a token that is not there, \<open>remove\<close>
  deletes it.
\<close>

record Document =
  data_theme :: "jsstring option"
  classList :: "jsstring list"

definition classList_add :: "jsstring \<Rightarrow> jsstring list \<Rightarrow> jsstring list" where
  "classList_add tok cl = (if tok \<in> set cl then cl else cl @ [tok])"

definition classList_remove :: "jsstring \<Rightarrow> jsstring list \<Rightarrow> jsstring list" where
  "classList_remove tok cl = removeAll tok cl"

text \<open>
  \<open>localStorage\<close>: its items, whether \<open>getItem\<close> and \<open>setItem\<close> throw (storage denied
  or full), and the log of the \<open>setItem\<close> calls made, which the source does not hold
  but an observer of the storage can see. The warning printed when an access throws is
  not part of the state.
\<close>

record Storage =
  items :: "jsstring \<rightharpoonup> jsstring"
  getItem_throws :: bool
  setItem_throws :: bool
  setItem_calls :: "(jsstring \<times> jsstring) list"

text \<open>
  What the constructor finds: the document (absent where \<open>typeof document\<close> is
  \<open>'undefined'\<close>), the storage, and the answer of
  \<open>window.matchMedia('(prefers-color-scheme: dark)').matches\<close> (absent where there is no
  \<open>window\<close> or no \<open>matchMedia\<close>).
\<close>

record Platform =
  platform_document :: "Document option"
  platform_localStorage :: Storage
  prefers_dark :: "bool option"

subsection \<open>The service\<close>

text \<open>
  The state: the signal's value, the document and the storage, and whether the effect
  registered by the constructor is due to run. Angular's signals and effects are used as
  the framework defines them: \<open>set\<close> compares the new value with the current one by
  \<open>Object.is\<close> and notifies the signal's consumers only when they differ; an effect runs
  once after its creation and again after each notification, not inside the call that
  caused it but when the framework next flushes its effects.
\<close>

record ThemeService =
  themeSignal :: Theme
  effect_dirty :: bool
  document :: "Document option"
  localStorage :: Storage

definition STORAGE_KEY :: jsstring where
  "STORAGE_KEY = utf16 ''github-insight-theme''"

definition DEFAULT_THEME :: Theme where
  "DEFAULT_THEME = Dark"

definition loadThemeFromStorage :: "Storage \<Rightarrow> Theme option" where
  "loadThemeFromStorage st =
     (if getItem_throws st then None
      else case items st STORAGE_KEY of
             None \<Rightarrow> None
           | Some stored \<Rightarrow>
               if stored = utf16 ''dark'' then Some Dark
               else if stored = utf16 ''light'' then Some Light
               else None)"


definition getInitialTheme :: "Platform \<Rightarrow> Theme" where
  "getInitialTheme p =
     (case loadThemeFromStorage (platform_localStorage p) of
        Some storedTheme \<Rightarrow> storedTheme
      | None \<Rightarrow>
          (case prefers_dark p of
             Some prefersDark \<Rightarrow> (if prefersDark then Dark else Light)
           | None \<Rightarrow> DEFAULT_THEME))"

definition applyThemeToDocument :: "Theme \<Rightarrow> Document option \<Rightarrow> Document option" where
  "applyThemeToDocument theme doc =
     (case doc of
        None \<Rightarrow> None
      | Some d \<Rightarrow>
          Some (if theme = Dark then
                  \<lparr>data_theme = Some (theme_literal theme),
                   classList = classList_remove (utf16 ''light-theme'')
                                 (classList_add (utf16 ''dark-theme'') (classList d))\<rparr>
                else
                  \<lparr>data_theme = Some (theme_literal theme),
                   classList = classList_remove (utf16 ''dark-theme'')
                                 (classList_add (utf16 ''light-theme'') (classList d))\<rparr>))"

definition themeSignal_set :: "Theme \<Rightarrow> ThemeService \<Rightarrow> ThemeService" where
  "themeSignal_set theme s =
     (if themeSignal s = theme then s else s\<lparr>themeSignal := theme, effect_dirty := True\<rparr>)"



text \<open>
  The constructor: the signal is initialised, the effect is registered (and so due to
  run), and the initial theme is applied to the document at once.
\<close>

definition new_ThemeService :: "Platform \<Rightarrow> ThemeService" where
  "new_ThemeService p =
     \<lparr>themeSignal = getInitialTheme p,
      effect_dirty = True,
      document = applyThemeToDocument (getInitialTheme p) (platform_document p),
      localStorage = platform_localStorage p\<rparr>"

definition toggleTheme :: "ThemeService \<Rightarrow> ThemeService" where
  "toggleTheme s =
     themeSignal_set (if themeSignal s = Dark then Light else Dark) s"


definition isDarkTheme :: "ThemeService \<Rightarrow> bool" where
  "isDarkTheme s \<longleftrightarrow> themeSignal s = Dark"

definition isLightTheme :: "ThemeService \<Rightarrow> bool" where
  "isLightTheme s \<longleftrightarrow> themeSignal s = Light"




section \<open>Vocabulary of the properties\<close>

subsection \<open>Request states\<close>

text \<open>A loading record carries neither data nor an error.\<close>

definition loading_clears :: "'a SearchState \<Rightarrow> bool" where
  "loading_clears st \<longleftrightarrow> (loading st \<longrightarrow> data st = None \<and> error st = None)"

fun write_clears :: "signal_write \<Rightarrow> bool" where
  "write_clears (SearchWrite v) = loading_clears v"
| "write_clears (ReposWrite v) = loading_clears v"

fun is_ReposWrite :: "signal_write \<Rightarrow> bool" where
  "is_ReposWrite (ReposWrite v) = True"
| "is_ReposWrite (SearchWrite v) = False"

definition settled_with_data :: "'a SearchState \<Rightarrow> bool" where
  "settled_with_data st \<longleftrightarrow> \<not> loading st \<and> data st \<noteq> None \<and> error st = None"

definition settled_with_error :: "'a SearchState \<Rightarrow> bool" where
  "settled_with_error st \<longleftrightarrow> \<not> loading st \<and> error st \<noteq> None \<and> data st = None"

text \<open>The three phases of a request state, and how many of them hold.\<close>

definition phases :: "'a SearchState \<Rightarrow> bool list" where
  "phases st = [loading st, settled_with_data st, settled_with_error st]"

definition exactly_one_phase :: "'a SearchState \<Rightarrow> bool" where
  "exactly_one_phase st \<longleftrightarrow> length (filter id (phases st)) = 1"

text \<open>
  The invariant that every \<open>set\<close> of the service keeps: a loading record is otherwise
  empty, and no record holds data and an error together.
\<close>

definition wellformed :: "'a SearchState \<Rightarrow> bool" where
  "wellformed st \<longleftrightarrow>
     (loading st \<longrightarrow> data st = None \<and> error st = None) \<and> (data st = None \<or> error st = None)"

fun write_wellformed :: "signal_write \<Rightarrow> bool" where
  "write_wellformed (SearchWrite v) = wellformed v"
| "write_wellformed (ReposWrite v) = wellformed v"

definition service_wellformed :: "GithubService \<Rightarrow> bool" where
  "service_wellformed s \<longleftrightarrow>
     wellformed (searchState s) \<and> wellformed (reposState s)
     \<and> list_all write_wellformed (writes s)"

text \<open>
  A request for a profile is sent without options, one for repositories with the three
  query parameters; so the profile requests of the log are those without parameters.
  An event hands a profile request to the HTTP client when it is a call of
  \<open>searchUser\<close> whose username is not empty after trimming.
\<close>

definition is_profile_request :: "HttpRequest \<Rightarrow> bool" where
  "is_profile_request r \<longleftrightarrow> params r = []"

definition profile_requests :: "GithubService \<Rightarrow> HttpRequest list" where
  "profile_requests s = filter is_profile_request (sent s)"

fun nonblank_search :: "event \<Rightarrow> bool" where
  "nonblank_search (SearchUser username) = (trim username \<noteq> [])"
| "nonblank_search (GetUserRepos username) = False"
| "nonblank_search ClearSearch = False"
| "nonblank_search (Response i r) = False"

subsection \<open>Theme markers\<close>






subsection \<open>Concrete inputs\<close>

definition octocat :: GithubUser where
  "octocat =
     \<lparr>login = utf16 ''octocat'', id_user = 583231, avatar_url = [], html_url_user = [],
      name_user = None, company = None, blog = None, location = None, email = None,
      bio = None, public_repos = 8, followers = 0, following = 0, created_at = []\<rparr>"

text \<open>A search for octocat that succeeds, followed by its repository list (empty).\<close>

definition octocat_resolved :: "event list" where
  "octocat_resolved =
     [SearchUser (utf16 ''octocat''),
      Response 0 (ProfileResult (Inr octocat)),
      Response 0 (ReposResult (Inr []))]"

text \<open>A server error whose body carries an empty \<open>message\<close>.\<close>

definition empty_message_error :: HttpErrorResponse where
  "empty_message_error =
     \<lparr>status = 500, error_body = Some \<lparr>message = [], documentation_url = []\<rparr>\<rparr>"

text \<open>
  A browser with nothing stored, a dark colour-scheme preference, and a body that
  carries both markers beside a class of its own.
\<close>

definition browser :: Platform where
  "browser =
     \<lparr>platform_document =
        Some \<lparr>data_theme = None,
              classList = [utf16 ''app'', utf16 ''light-theme'', utf16 ''dark-theme'']\<rparr>,
      platform_localStorage =
        \<lparr>items = Map.empty, getItem_throws = False, setItem_throws = False,
         setItem_calls = []\<rparr>,
      prefers_dark = Some True\<rparr>"

section \<open>Facts about trim\<close>

lemma dropWhile_all: "(\<forall>c\<in>set (dropWhile P xs). P c) \<longleftrightarrow> (\<forall>c\<in>set xs. P c)"
proof
  assume a: "\<forall>c\<in>set (dropWhile P xs). P c"
  have "dropWhile P xs = []"
  proof (cases "dropWhile P xs")
    case (Cons y ys)
    then have "\<not> P y" using hd_dropWhile[of P xs] by simp
    moreover have "y \<in> set (dropWhile P xs)" using Cons by simp
    ultimately show ?thesis using a by blast
  qed simp
  then show "\<forall>c\<in>set xs. P c" by (simp add: dropWhile_eq_Nil_conv)
next
  assume "\<forall>c\<in>set xs. P c"
  then show "\<forall>c\<in>set (dropWhile P xs). P c" by (auto dest: set_dropWhileD)
qed

lemma trim_empty_iff: "trim s = [] \<longleftrightarrow> (\<forall>c\<in>set s. isWhiteSpace c)"
  by (simp add: trim_def dropWhile_eq_Nil_conv dropWhile_all)

lemma sublist_trim: "sublist (trim s) s"
  unfolding trim_def sublist_def
  by (metis takeWhile_dropWhile_id rev_append rev_rev_ident)

lemma short_circuit_iff:
  "(username = [] \<or> length (trim username) = 0) \<longleftrightarrow> trim username = []"
  by (auto simp: trim_def)

section \<open>The two branches of searchUser\<close>

lemma searchUser_short:
  "trim username = [] \<Longrightarrow>
   searchUser username s =
     set_searchState
       \<lparr>data = None, loading = False,
        error = Some (utf16 ''El nombre de usuario no puede estar vac'' @ [0xED] @ utf16 ''o'')\<rparr> s"
  using short_circuit_iff[of username] by (simp add: searchUser_def)

lemma searchUser_fetch:
  "trim username \<noteq> [] \<Longrightarrow>
   searchUser username s =
     http_get \<lparr>url = apiUrl @ utf16 ''/users/'' @ trim username, params = []\<rparr>
       (ProfileFetch username)
       (set_searchState \<lparr>data = None, loading = True, error = None\<rparr> s)"
  using short_circuit_iff[of username] by (simp add: searchUser_def)

lemma deliver_failure_after_search:
  "trim username \<noteq> [] \<Longrightarrow>
   deliver (length (in_flight s)) (ProfileResult (Inl e)) (searchUser username s) =
     searchUser_catchError username e
       ((set_searchState \<lparr>data = None, loading = True, error = None\<rparr> s)
          \<lparr>sent := sent s @ [\<lparr>url = apiUrl @ utf16 ''/users/'' @ trim username, params = []\<rparr>]\<rparr>)"
  by (simp add: searchUser_fetch deliver_def http_get_def set_searchState_def)

section \<open>Every write keeps the records well formed\<close>

lemma wf_set_searchState:
  "service_wellformed s \<Longrightarrow> wellformed v \<Longrightarrow> service_wellformed (set_searchState v s)"
  by (simp add: service_wellformed_def set_searchState_def)

lemma wf_set_reposState:
  "service_wellformed s \<Longrightarrow> wellformed v \<Longrightarrow> service_wellformed (set_reposState v s)"
  by (simp add: service_wellformed_def set_reposState_def)

lemma wf_http_get: "service_wellformed s \<Longrightarrow> service_wellformed (http_get req sub s)"
  by (simp add: service_wellformed_def http_get_def)

lemma wf_in_flight_update: "service_wellformed s \<Longrightarrow> service_wellformed (s\<lparr>in_flight := q\<rparr>)"
  by (simp add: service_wellformed_def)

lemma wf_getUserRepos: "service_wellformed s \<Longrightarrow> service_wellformed (getUserRepos username s)"
  by (simp add: getUserRepos_def wf_set_reposState wf_http_get wellformed_def)

lemma wf_searchUser: "service_wellformed s \<Longrightarrow> service_wellformed (searchUser username s)"
  by (simp add: searchUser_def wf_set_searchState wf_http_get wellformed_def)

lemma wf_clearSearch: "service_wellformed s \<Longrightarrow> service_wellformed (clearSearch s)"
  by (simp add: clearSearch_def wf_set_searchState wf_set_reposState wellformed_def)

lemma wf_searchUser_tap: "service_wellformed s \<Longrightarrow> service_wellformed (searchUser_tap u s)"
  by (simp add: searchUser_tap_def wf_getUserRepos wf_set_searchState wellformed_def)

lemma wf_searchUser_catchError:
  "service_wellformed s \<Longrightarrow> service_wellformed (searchUser_catchError username e s)"
  by (simp add: searchUser_catchError_def wf_set_searchState wellformed_def)

lemma wf_getUserRepos_tap:
  "service_wellformed s \<Longrightarrow> service_wellformed (getUserRepos_tap rs s)"
  by (simp add: getUserRepos_tap_def wf_set_reposState wellformed_def)

lemma wf_getUserRepos_catchError:
  "service_wellformed s \<Longrightarrow> service_wellformed (getUserRepos_catchError e s)"
  by (simp add: getUserRepos_catchError_def wf_set_reposState wellformed_def)

lemma wf_deliver: "service_wellformed s \<Longrightarrow> service_wellformed (deliver i r s)"
  by (auto simp: deliver_def Let_def wf_searchUser_tap wf_searchUser_catchError
        wf_getUserRepos_tap wf_getUserRepos_catchError wf_in_flight_update
      split: subscription.splits response.splits sum.splits prod.splits)

lemma wf_step: "service_wellformed s \<Longrightarrow> service_wellformed (step s ev)"
  by (cases ev) (simp_all add: wf_searchUser wf_getUserRepos wf_clearSearch wf_deliver)

lemma wf_foldl: "service_wellformed s \<Longrightarrow> service_wellformed (foldl step s evs)"
  by (induction evs arbitrary: s) (simp_all add: wf_step)

lemma wf_new: "service_wellformed new_GithubService"
  by (simp add: service_wellformed_def new_GithubService_def initial_state_def wellformed_def)

lemma wf_run: "service_wellformed (run evs)"
  by (simp add: run_def wf_foldl wf_new)

lemma write_wellformed_clears: "write_wellformed w \<Longrightarrow> write_clears w"
  by (cases w) (simp_all add: wellformed_def loading_clears_def)

lemma wellformed_phase:
  "wellformed st \<Longrightarrow>
     (st = initial_state \<and> filter id (phases st) = [])
     \<or> (st \<noteq> initial_state \<and> exactly_one_phase st)"
  by (cases st) (auto simp: wellformed_def initial_state_def exactly_one_phase_def phases_def
      settled_with_data_def settled_with_error_def)

text \<open>The states reached by the concrete runs used below.\<close>

lemma run_search_octocat:
  "run [SearchUser (utf16 ''octocat'')] =
     \<lparr>searchState = \<lparr>data = None, loading = True, error = None\<rparr>,
      reposState = initial_state,
      in_flight = [(\<lparr>url = utf16 ''https://api.github.com/users/octocat'', params = []\<rparr>,
                    ProfileFetch (utf16 ''octocat''))],
      sent = [\<lparr>url = utf16 ''https://api.github.com/users/octocat'', params = []\<rparr>],
      writes = [SearchWrite \<lparr>data = None, loading = True, error = None\<rparr>]\<rparr>"
  by (simp add: run_def searchUser_def new_GithubService_def http_get_def set_searchState_def
      trim_def isWhiteSpace_def utf16_def apiUrl_def)

lemma run_octocat_resolved:
  "reposState (run octocat_resolved) = \<lparr>data = Some [], loading = False, error = None\<rparr>
   \<and> searchState (run octocat_resolved) = \<lparr>data = Some octocat, loading = False, error = None\<rparr>
   \<and> in_flight (run octocat_resolved) = []"
  by (simp add: octocat_resolved_def run_def searchUser_def new_GithubService_def http_get_def
      set_searchState_def set_reposState_def deliver_def searchUser_tap_def getUserRepos_def
      getUserRepos_tap_def octocat_def trim_def isWhiteSpace_def utf16_def)

section \<open>Requests handed to the HTTP client\<close>

lemma profile_requests_getUserRepos:
  "profile_requests (getUserRepos username s) = profile_requests s"
  by (simp add: profile_requests_def getUserRepos_def http_get_def set_reposState_def
      is_profile_request_def)

lemma profile_requests_searchUser:
  "profile_requests (searchUser username s) =
     profile_requests s @
       (if trim username = [] then []
        else [\<lparr>url = apiUrl @ utf16 ''/users/'' @ trim username, params = []\<rparr>])"
proof (cases "trim username = []")
  case True
  then show ?thesis by (simp add: searchUser_short profile_requests_def set_searchState_def)
next
  case False
  then show ?thesis
    by (simp add: searchUser_fetch profile_requests_def http_get_def set_searchState_def
        is_profile_request_def)
qed

lemma sent_deliver_failure: "sent (deliver i (ProfileResult (Inl e)) s) = sent s"
  by (simp add: deliver_def Let_def searchUser_catchError_def set_searchState_def
      split: subscription.splits)

lemma sent_deliver_repos: "sent (deliver i (ReposResult r) s) = sent s"
  by (cases r)
     (simp_all add: deliver_def Let_def getUserRepos_tap_def getUserRepos_catchError_def
        set_reposState_def split: subscription.splits)

lemma profile_requests_deliver: "profile_requests (deliver i r s) = profile_requests s"
proof (cases r)
  case (ProfileResult x)
  show ?thesis
  proof (cases x)
    case (Inl e)
    with ProfileResult show ?thesis by (simp add: profile_requests_def sent_deliver_failure)
  next
    case (Inr u)
    have "profile_requests (searchUser_tap u s') = profile_requests s'" for s'
      by (simp add: searchUser_tap_def profile_requests_getUserRepos)
         (simp add: profile_requests_def set_searchState_def)
    moreover have "profile_requests (s\<lparr>in_flight := q\<rparr>) = profile_requests s" for q
      by (simp add: profile_requests_def)
    ultimately show ?thesis using ProfileResult Inr
      by (simp add: deliver_def Let_def split: subscription.splits)
  qed
next
  case (ReposResult x)
  then show ?thesis by (simp add: profile_requests_def sent_deliver_repos)
qed

lemma profile_requests_step:
  "length (profile_requests (step s ev)) =
     length (profile_requests s) + (if nonblank_search ev then 1 else 0)"
  by (cases ev)
     (simp_all add: profile_requests_searchUser profile_requests_getUserRepos
        profile_requests_deliver,
      simp add: profile_requests_def clearSearch_def set_searchState_def set_reposState_def)

lemma profile_requests_foldl:
  "length (profile_requests (foldl step s evs)) =
     length (profile_requests s) + length (filter nonblank_search evs)"
  by (induction evs arbitrary: s) (simp_all add: profile_requests_step)

lemma profile_requests_run:
  "length (profile_requests (run evs)) = length (filter nonblank_search evs)"
  by (simp add: run_def profile_requests_foldl)
     (simp add: profile_requests_def new_GithubService_def)

lemma deliver_success_after_search:
  "trim username \<noteq> [] \<Longrightarrow>
   deliver (length (in_flight s)) (ProfileResult (Inr u)) (searchUser username s) =
     searchUser_tap u
       ((set_searchState \<lparr>data = None, loading = True, error = None\<rparr> s)
          \<lparr>sent := sent s @ [\<lparr>url = apiUrl @ utf16 ''/users/'' @ trim username, params = []\<rparr>]\<rparr>)"
  by (simp add: searchUser_fetch deliver_def http_get_def set_searchState_def)

section \<open>GithubService: the claims\<close>

text \<open>
  C1. In every state the service reaches from its construction by calls of
  \<open>searchUser\<close>, \<open>getUserRepos\<close> and \<open>clearSearch\<close> and by responses to the requests in
  flight, in any order, a profile state or repository state that is loading holds no
  data and no error; and so does every record that was ever passed to \<open>set\<close> on either
  signal.
\<close>

theorem loading_clears_data_and_error:
  "loading_clears (searchState (run evs))
   \<and> loading_clears (reposState (run evs))
   \<and> list_all write_clears (writes (run evs))"
  using wf_run[of evs]
  by (auto simp: service_wellformed_def wellformed_def loading_clears_def list_all_iff
      intro: write_wellformed_clears)

theorem loading_clears_data_and_error_witness:
  "loading (searchState (run [SearchUser (utf16 ''octocat'')]))
   \<and> data (searchState (run [SearchUser (utf16 ''octocat'')])) = None
   \<and> error (searchState (run [SearchUser (utf16 ''octocat'')])) = None"
  using loading_clears_data_and_error[of "[SearchUser (utf16 ''octocat'')]"]
  by (simp add: run_search_octocat loading_clears_def)

text \<open>
  C2, as amended. In every reachable state each of the two request states is either the
  idle record \<open>{absent, false, absent}\<close> of the construction and of \<open>clearSearch\<close>, in
  which none of loading, settled-with-data and settled-with-error holds, or a record
  other than that one in which exactly one of the three holds.
\<close>

theorem one_phase_or_idle:
  "((searchState (run evs) = initial_state \<and> filter id (phases (searchState (run evs))) = [])
     \<or> (searchState (run evs) \<noteq> initial_state \<and> exactly_one_phase (searchState (run evs))))
   \<and> ((reposState (run evs) = initial_state \<and> filter id (phases (reposState (run evs))) = [])
     \<or> (reposState (run evs) \<noteq> initial_state \<and> exactly_one_phase (reposState (run evs))))"
  using wf_run[of evs] by (simp add: service_wellformed_def wellformed_phase)

theorem one_phase_or_idle_witness:
  "searchState (run [SearchUser (utf16 ''octocat'')]) \<noteq> initial_state
   \<and> exactly_one_phase (searchState (run [SearchUser (utf16 ''octocat'')]))
   \<and> reposState (run [SearchUser (utf16 ''octocat'')]) = initial_state"
  using one_phase_or_idle[of "[SearchUser (utf16 ''octocat'')]"]
  by (simp add: run_search_octocat initial_state_def)

text \<open>
  C2 as stated fails at the construction: the initial profile state is not loading and
  holds neither data nor an error, so none of the three phases holds.
\<close>

theorem initial_state_has_no_phase:
  "\<not> exactly_one_phase (searchState new_GithubService)
   \<and> run [] = new_GithubService
   \<and> phases (searchState new_GithubService) = [False, False, False]"
  by (simp add: run_def new_GithubService_def initial_state_def exactly_one_phase_def phases_def
      settled_with_data_def settled_with_error_def)

text \<open>
  C3, as amended. When \<open>searchUser\<close> is called with a username that is not empty after
  trimming and the fetch it sent fails, the profile state becomes
  \<open>{absent, false, message}\<close>, where the message is chosen by the status of the failure:
  404 gives the not-found text around the username as it was passed, which contains the
  trimmed handle too; 403 gives the rate-limit text; 0 gives the connectivity text; any
  other status gives the \<open>message\<close> of the error body when there is a body and its
  message is not the empty string, and the generic text otherwise.
\<close>

theorem searchUser_failure_classified:
  assumes "trim username \<noteq> []"
  shows
    "searchState (deliver (length (in_flight s)) (ProfileResult (Inl e)) (searchUser username s))
       = \<lparr>data = None, loading = False, error = Some (searchUser_errorMessage username e)\<rparr>
     \<and> (status e = 404 \<longrightarrow>
          searchUser_errorMessage username e
            = utf16 ''Usuario \"'' @ username @ utf16 ''\" no encontrado''
          \<and> sublist username (searchUser_errorMessage username e)
          \<and> sublist (trim username) (searchUser_errorMessage username e))
     \<and> (status e = 403 \<longrightarrow>
          searchUser_errorMessage username e
            = utf16 ''L'' @ [0xED] @ utf16 ''mite de solicitudes excedido. Intenta m''
                @ [0xE1] @ utf16 ''s tarde'')
     \<and> (status e = 0 \<longrightarrow>
          searchUser_errorMessage username e
            = utf16 ''Error de conexi'' @ [0xF3] @ utf16 ''n. Verifica tu internet'')
     \<and> (status e \<notin> {404, 403, 0} \<longrightarrow>
          searchUser_errorMessage username e
            = (case error_body e of
                 None \<Rightarrow> utf16 ''Error al buscar usuario''
               | Some b \<Rightarrow>
                   if message b = [] then utf16 ''Error al buscar usuario'' else message b))"
proof -
  let ?m = "searchUser_errorMessage username e"
  let ?nf = "utf16 ''Usuario \"'' @ username @ utf16 ''\" no encontrado''"
  have st: "searchState (deliver (length (in_flight s)) (ProfileResult (Inl e))
                           (searchUser username s))
              = \<lparr>data = None, loading = False, error = Some ?m\<rparr>"
    using assms
    by (simp add: deliver_failure_after_search searchUser_catchError_def set_searchState_def)
  have nf: "status e = 404 \<longrightarrow> ?m = ?nf"
    by (simp add: searchUser_errorMessage_def)
  have sub: "sublist username ?nf"
    by (rule sublist_appendI)
  have sub': "sublist (trim username) ?nf"
    using sublist_trim[of username] sub sublist_order.order_trans by blast
  have rl: "status e = 403 \<longrightarrow>
          ?m = utf16 ''L'' @ [0xED] @ utf16 ''mite de solicitudes excedido. Intenta m''
                 @ [0xE1] @ utf16 ''s tarde''"
    by (simp add: searchUser_errorMessage_def)
  have cn: "status e = 0 \<longrightarrow>
          ?m = utf16 ''Error de conexi'' @ [0xF3] @ utf16 ''n. Verifica tu internet''"
    by (simp add: searchUser_errorMessage_def)
  have ot: "status e \<notin> {404, 403, 0} \<longrightarrow>
          ?m = (case error_body e of
                  None \<Rightarrow> utf16 ''Error al buscar usuario''
                | Some b \<Rightarrow>
                    if message b = [] then utf16 ''Error al buscar usuario'' else message b)"
    by (simp add: searchUser_errorMessage_def or_else_def split: option.splits)
  from st nf sub sub' rl cn ot show ?thesis by simp
qed

theorem searchUser_failure_classified_witness:
  "trim (utf16 '' octocat'') \<noteq> []
   \<and> searchState (deliver 0 (ProfileResult (Inl \<lparr>status = 404, error_body = None\<rparr>))
                    (searchUser (utf16 '' octocat'') new_GithubService))
       = \<lparr>data = None, loading = False,
          error = Some (utf16 ''Usuario \" octocat\" no encontrado'')\<rparr>
   \<and> sublist (utf16 ''octocat'') (utf16 ''Usuario \" octocat\" no encontrado'')"
  using searchUser_failure_classified
          [of "utf16 '' octocat''" new_GithubService "\<lparr>status = 404, error_body = None\<rparr>"]
  by (auto simp add: trim_def isWhiteSpace_def utf16_def new_GithubService_def)

text \<open>
  C3 as stated fails where the error body is present and its \<open>message\<close> is the empty
  string: for status 500 the state then holds the generic text, not the body's message.
\<close>

theorem searchUser_failure_empty_message:
  "error (searchState (deliver 0 (ProfileResult (Inl empty_message_error))
                         (searchUser (utf16 ''octocat'') new_GithubService)))
     = Some (utf16 ''Error al buscar usuario'')
   \<and> map_option message (error_body empty_message_error) = Some []
   \<and> error (searchState (deliver 0 (ProfileResult (Inl empty_message_error))
                           (searchUser (utf16 ''octocat'') new_GithubService)))
       \<noteq> map_option message (error_body empty_message_error)"
  by (simp add: deliver_def searchUser_def new_GithubService_def http_get_def set_searchState_def
      searchUser_catchError_def searchUser_errorMessage_def or_else_def empty_message_error_def
      trim_def isWhiteSpace_def utf16_def)

text \<open>
  C4. For a username that is empty or made of white space only, \<open>searchUser\<close> leaves the
  profile state at \<open>{absent, false, validation message}\<close>, hands no request to the HTTP
  client (nothing is sent, nothing is in flight that was not before), and writes that
  one record only, so no loading record is written during the call.
\<close>

theorem searchUser_blank_input:
  assumes "\<forall>c\<in>set username. isWhiteSpace c"
  shows
    "searchState (searchUser username s)
       = \<lparr>data = None, loading = False,
          error = Some (utf16 ''El nombre de usuario no puede estar vac'' @ [0xED] @ utf16 ''o'')\<rparr>
     \<and> sent (searchUser username s) = sent s
     \<and> in_flight (searchUser username s) = in_flight s
     \<and> writes (searchUser username s)
         = writes s @
           [SearchWrite
              \<lparr>data = None, loading = False,
               error = Some (utf16 ''El nombre de usuario no puede estar vac'' @ [0xED]
                               @ utf16 ''o'')\<rparr>]"
proof -
  have "trim username = []" using assms by (simp add: trim_empty_iff)
  then show ?thesis by (simp add: searchUser_short set_searchState_def)
qed

theorem searchUser_blank_input_witness:
  "isWhiteSpace 0x20 \<and> isWhiteSpace 0x09 \<and> isWhiteSpace 0x3000
   \<and> searchState (searchUser [0x20, 0x09, 0x3000] new_GithubService)
       = \<lparr>data = None, loading = False,
          error = Some (utf16 ''El nombre de usuario no puede estar vac'' @ [0xED] @ utf16 ''o'')\<rparr>
   \<and> sent (searchUser [0x20, 0x09, 0x3000] new_GithubService) = []
   \<and> length (writes (searchUser [0x20, 0x09, 0x3000] new_GithubService)) = 1"
  using searchUser_blank_input[of "[0x20, 0x09, 0x3000]" new_GithubService]
  by (simp add: isWhiteSpace_def new_GithubService_def)

text \<open>
  C5. For a username that is not empty after trimming, \<open>searchUser\<close> returns with the
  profile state at \<open>{absent, true, absent}\<close>, having written that record only, and
  having handed exactly one request to the HTTP client: the profile resource of the
  trimmed handle, now in flight. The response to it, when it comes, ends the request and
  sends no profile request again: a failure sends nothing, a success sends only the
  repository request of the chained \<open>getUserRepos\<close>. Over a whole run of the service
  the profile requests sent are as many as the calls of \<open>searchUser\<close> with a username
  that is not empty after trimming.
\<close>

theorem searchUser_loading_one_fetch:
  assumes "trim username \<noteq> []"
  shows
    "searchState (searchUser username s) = \<lparr>data = None, loading = True, error = None\<rparr>
     \<and> writes (searchUser username s)
         = writes s @ [SearchWrite \<lparr>data = None, loading = True, error = None\<rparr>]
     \<and> sent (searchUser username s)
         = sent s @ [\<lparr>url = apiUrl @ utf16 ''/users/'' @ trim username, params = []\<rparr>]
     \<and> in_flight (searchUser username s)
         = in_flight s @
           [(\<lparr>url = apiUrl @ utf16 ''/users/'' @ trim username, params = []\<rparr>,
             ProfileFetch username)]
     \<and> sent (deliver (length (in_flight s)) (ProfileResult (Inl e)) (searchUser username s))
         = sent s @ [\<lparr>url = apiUrl @ utf16 ''/users/'' @ trim username, params = []\<rparr>]
     \<and> in_flight (deliver (length (in_flight s)) (ProfileResult (Inl e))
                    (searchUser username s))
         = in_flight s
     \<and> sent (deliver (length (in_flight s)) (ProfileResult (Inr u)) (searchUser username s))
         = sent s @ [\<lparr>url = apiUrl @ utf16 ''/users/'' @ trim username, params = []\<rparr>]
             @ (if trim (login u) = [] then []
                else [\<lparr>url = apiUrl @ utf16 ''/users/'' @ trim (login u) @ utf16 ''/repos'',
                       params = [(utf16 ''sort'', utf16 ''updated''),
                                 (utf16 ''direction'', utf16 ''desc''),
                                 (utf16 ''per_page'', utf16 ''30'')]\<rparr>])
     \<and> map snd (in_flight (deliver (length (in_flight s)) (ProfileResult (Inr u))
                             (searchUser username s)))
         = map snd (in_flight s) @ (if trim (login u) = [] then [] else [ReposFetch])
     \<and> sent (deliver i (ProfileResult (Inl e)) s) = sent s
     \<and> sent (deliver i (ReposResult r) s) = sent s
     \<and> profile_requests (deliver i (ProfileResult (Inr u)) s) = profile_requests s
     \<and> length (profile_requests (run evs)) = length (filter nonblank_search evs)"
proof -
  let ?req = "\<lparr>url = apiUrl @ utf16 ''/users/'' @ trim username, params = []\<rparr>"
  have call:
    "searchState (searchUser username s) = \<lparr>data = None, loading = True, error = None\<rparr>
     \<and> writes (searchUser username s)
         = writes s @ [SearchWrite \<lparr>data = None, loading = True, error = None\<rparr>]
     \<and> sent (searchUser username s) = sent s @ [?req]
     \<and> in_flight (searchUser username s) = in_flight s @ [(?req, ProfileFetch username)]"
    using assms by (simp add: searchUser_fetch http_get_def set_searchState_def)
  have fail:
    "sent (deliver (length (in_flight s)) (ProfileResult (Inl e)) (searchUser username s))
       = sent s @ [?req]
     \<and> in_flight (deliver (length (in_flight s)) (ProfileResult (Inl e))
                    (searchUser username s))
         = in_flight s"
    using assms
    by (simp add: deliver_failure_after_search searchUser_catchError_def set_searchState_def)
  have succ:
    "sent (deliver (length (in_flight s)) (ProfileResult (Inr u)) (searchUser username s))
       = sent s @ [?req]
           @ (if trim (login u) = [] then []
              else [\<lparr>url = apiUrl @ utf16 ''/users/'' @ trim (login u) @ utf16 ''/repos'',
                     params = [(utf16 ''sort'', utf16 ''updated''),
                               (utf16 ''direction'', utf16 ''desc''),
                               (utf16 ''per_page'', utf16 ''30'')]\<rparr>])
     \<and> map snd (in_flight (deliver (length (in_flight s)) (ProfileResult (Inr u))
                             (searchUser username s)))
         = map snd (in_flight s) @ (if trim (login u) = [] then [] else [ReposFetch])"
    using assms short_circuit_iff[of "login u"]
    by (simp add: deliver_success_after_search searchUser_tap_def getUserRepos_def
        http_get_def set_searchState_def set_reposState_def)
  from call fail succ show ?thesis
    by (simp add: sent_deliver_failure sent_deliver_repos profile_requests_deliver
        profile_requests_run)
qed

theorem searchUser_loading_one_fetch_witness:
  "trim (utf16 '' octocat '') \<noteq> []
   \<and> searchState (searchUser (utf16 '' octocat '') new_GithubService)
       = \<lparr>data = None, loading = True, error = None\<rparr>
   \<and> sent (searchUser (utf16 '' octocat '') new_GithubService)
       = [\<lparr>url = utf16 ''https://api.github.com/users/octocat'', params = []\<rparr>]
   \<and> sent (deliver 0 (ProfileResult (Inl \<lparr>status = 500, error_body = None\<rparr>))
              (searchUser (utf16 '' octocat '') new_GithubService))
       = [\<lparr>url = utf16 ''https://api.github.com/users/octocat'', params = []\<rparr>]
   \<and> in_flight (deliver 0 (ProfileResult (Inl \<lparr>status = 500, error_body = None\<rparr>))
                  (searchUser (utf16 '' octocat '') new_GithubService))
       = []
   \<and> length (profile_requests (run octocat_resolved)) = 1
   \<and> length (sent (run octocat_resolved)) = 2"
  using searchUser_loading_one_fetch
          [of "utf16 '' octocat ''" new_GithubService "\<lparr>status = 500, error_body = None\<rparr>"
              octocat 0 "Inr []" octocat_resolved]
  by (simp add: trim_def isWhiteSpace_def utf16_def new_GithubService_def apiUrl_def
      octocat_resolved_def run_def searchUser_def http_get_def set_searchState_def
      set_reposState_def deliver_def searchUser_tap_def getUserRepos_def getUserRepos_tap_def
      octocat_def)

text \<open>
  C6. After \<open>clearSearch\<close> the six computed signals \<open>user\<close>, \<open>isLoading\<close>, \<open>error\<close>,
  \<open>repos\<close>, \<open>isLoadingRepos\<close> and \<open>reposError\<close> have their initial values (absent or
  false), both request states being the initial record; and a second \<open>clearSearch\<close>
  leaves the service as the first did (the log of writes apart, which grows by the
  same two records again).
\<close>

theorem clearSearch_resets_idempotent:
  "user (clearSearch s) = None
   \<and> \<not> isLoading (clearSearch s)
   \<and> error_msg (clearSearch s) = None
   \<and> repos (clearSearch s) = None
   \<and> \<not> isLoadingRepos (clearSearch s)
   \<and> reposError (clearSearch s) = None
   \<and> searchState (clearSearch s) = searchState new_GithubService
   \<and> reposState (clearSearch s) = reposState new_GithubService
   \<and> (clearSearch (clearSearch s))\<lparr>writes := w\<rparr> = (clearSearch s)\<lparr>writes := w\<rparr>"
  by (simp add: clearSearch_def set_searchState_def set_reposState_def user_def isLoading_def
      error_msg_def repos_def isLoadingRepos_def reposError_def new_GithubService_def
      initial_state_def)

theorem clearSearch_resets_idempotent_witness:
  "user (run octocat_resolved) = Some octocat
   \<and> repos (run octocat_resolved) = Some []
   \<and> user (clearSearch (run octocat_resolved)) = None
   \<and> repos (clearSearch (run octocat_resolved)) = None
   \<and> searchState (clearSearch (clearSearch (run octocat_resolved))) = initial_state"
  using clearSearch_resets_idempotent[of "run octocat_resolved"]
        clearSearch_resets_idempotent[of "clearSearch (run octocat_resolved)"]
  by (simp add: run_octocat_resolved user_def repos_def new_GithubService_def initial_state_def)

text \<open>
  C7. A call of \<open>searchUser\<close>, whether it stops at the empty input or sends the
  fetch and leaves the profile loading, does not change the repository state and writes
  nothing to it; nor does the failure of a profile fetch, whatever its status. On the
  success of a profile fetch the repository state is the one the chained
  \<open>getUserRepos\<close> writes.
\<close>

theorem searchUser_unsuccessful_keeps_repos:
  "reposState (searchUser username s) = reposState s
   \<and> filter is_ReposWrite (writes (searchUser username s)) = filter is_ReposWrite (writes s)
   \<and> reposState (deliver i (ProfileResult (Inl e)) s) = reposState s
   \<and> filter is_ReposWrite (writes (deliver i (ProfileResult (Inl e)) s))
       = filter is_ReposWrite (writes s)
   \<and> reposState (searchUser_tap u s) = reposState (getUserRepos (login u) s)"
  by (simp add: searchUser_def http_get_def set_searchState_def deliver_def Let_def
      searchUser_catchError_def searchUser_tap_def getUserRepos_def set_reposState_def
      split: subscription.splits)

theorem searchUser_unsuccessful_keeps_repos_witness:
  "reposState (run octocat_resolved) = \<lparr>data = Some [], loading = False, error = None\<rparr>
   \<and> loading (searchState (searchUser (utf16 ''nobody'') (run octocat_resolved)))
   \<and> reposState (searchUser (utf16 ''nobody'') (run octocat_resolved))
       = \<lparr>data = Some [], loading = False, error = None\<rparr>
   \<and> reposState (deliver 0 (ProfileResult (Inl \<lparr>status = 404, error_body = None\<rparr>))
                   (searchUser (utf16 ''nobody'') (run octocat_resolved)))
       = \<lparr>data = Some [], loading = False, error = None\<rparr>"
  using searchUser_unsuccessful_keeps_repos
          [of "utf16 ''nobody''" "run octocat_resolved" 0 "\<lparr>status = 404, error_body = None\<rparr>"]
        searchUser_unsuccessful_keeps_repos
          [of "utf16 ''nobody''" "searchUser (utf16 ''nobody'') (run octocat_resolved)" 0
              "\<lparr>status = 404, error_body = None\<rparr>"]
  by (simp add: run_octocat_resolved searchUser_def http_get_def set_searchState_def
      trim_def isWhiteSpace_def utf16_def)

section \<open>ThemeService: the claims\<close>












text \<open>
  C8. \<open>toggleTheme\<close> sets the theme to the other value: light from dark, dark from
  light; so two calls in a row give back the value they started from.
\<close>

theorem toggleTheme_involution:
  "themeSignal (toggleTheme (s\<lparr>themeSignal := Dark\<rparr>)) = Light
   \<and> themeSignal (toggleTheme (s\<lparr>themeSignal := Light\<rparr>)) = Dark
   \<and> themeSignal (toggleTheme s) \<noteq> themeSignal s
   \<and> themeSignal (toggleTheme (toggleTheme s)) = themeSignal s"
  by (cases "themeSignal s") (simp_all add: toggleTheme_def themeSignal_set_def)

theorem toggleTheme_involution_witness:
  "themeSignal (new_ThemeService browser) = Dark
   \<and> themeSignal (toggleTheme (new_ThemeService browser)) = Light
   \<and> themeSignal (toggleTheme (toggleTheme (new_ThemeService browser))) = Dark"
  using toggleTheme_involution[of "new_ThemeService browser"]
  by (simp add: new_ThemeService_def browser_def getInitialTheme_def loadThemeFromStorage_def
      toggleTheme_def themeSignal_set_def)







end
